theory Spec2Isabelle
  imports Complex_Main "HOL-Library.Sublist" "HOL-Library.AList"
begin

section \<open>Python values\<close>

text \<open>
  Everything the programs handle comes out of \<^verbatim>\<open>json.load\<close> or
  \<^verbatim>\<open>response.json()\<close>: dictionaries, lists, strings, numbers, booleans
  and \<^verbatim>\<open>None\<close>. A dictionary is an association list in insertion order, read
  with \<open>map_of\<close>. Python floats are modelled as reals: the programs only compare
  them with decimal literals and with \<open>0\<close>, and those comparisons are exact.
\<close>

datatype json =
    JNull
  | JBool bool
  | JInt int
  | JFloat real
  | JStr string
  | JArr "json list"
  | JObj "(string \<times> json) list"

text \<open>The exceptions that can leave one of the modelled functions.\<close>

datatype error =
    OSError
  | JSONDecodeError
  | RequestException
  | AttributeError
  | TypeError
  | KeyError
  | UnicodeDecodeError

text \<open>Truth value of an object, as \<^verbatim>\<open>if x\<close>, \<^verbatim>\<open>not x\<close> and \<^verbatim>\<open>x or y\<close> test it.\<close>

fun truthy :: "json \<Rightarrow> bool" where
  "truthy JNull = False"
| "truthy (JBool b) = b"
| "truthy (JInt n) = (n \<noteq> 0)"
| "truthy (JFloat x) = (x \<noteq> 0)"
| "truthy (JStr s) = (s \<noteq> [])"
| "truthy (JArr xs) = (xs \<noteq> [])"
| "truthy (JObj kvs) = (kvs \<noteq> [])"

text \<open>\<^verbatim>\<open>d.get(k, default)\<close> on a dictionary.\<close>

definition dict_get :: "(string \<times> json) list \<Rightarrow> string \<Rightarrow> json \<Rightarrow> json" where
  "dict_get kvs k dflt = (case map_of kvs k of None \<Rightarrow> dflt | Some v \<Rightarrow> v)"

text \<open>\<^verbatim>\<open>x.get(k, default)\<close> on any object: only a dictionary has \<^verbatim>\<open>get\<close>.\<close>

fun py_get :: "json \<Rightarrow> string \<Rightarrow> json \<Rightarrow> error + json" where
  "py_get (JObj kvs) k dflt = Inr (dict_get kvs k dflt)"
| "py_get _ k dflt = Inl AttributeError"

text \<open>
  \<^verbatim>\<open>x[k]\<close> with a string key: \<^verbatim>\<open>KeyError\<close> on a dictionary without the key,
  \<^verbatim>\<open>TypeError\<close> on every other object.
\<close>

fun py_item :: "json \<Rightarrow> string \<Rightarrow> error + json" where
  "py_item (JObj kvs) k = (case map_of kvs k of None \<Rightarrow> Inl KeyError | Some v \<Rightarrow> Inr v)"
| "py_item _ k = Inl TypeError"

text \<open>
  \<^verbatim>\<open>for x in obj\<close>: a list yields its elements, a dictionary its keys, a string
  its characters; the other objects are not iterable.
\<close>

fun py_iter :: "json \<Rightarrow> error + json list" where
  "py_iter (JArr xs) = Inr xs"
| "py_iter (JObj kvs) = Inr (map (\<lambda>kv. JStr (fst kv)) kvs)"
| "py_iter (JStr s) = Inr (map (\<lambda>c. JStr [c]) s)"
| "py_iter _ = Inl TypeError"

text \<open>
  \<^verbatim>\<open>str.lower()\<close>, on the ASCII letters (a \<open>char\<close> is a byte; the other bytes
  are left as they are), and its use on an arbitrary object.
\<close>

definition lower_char :: "char \<Rightarrow> char" where
  "lower_char c =
     (let n = (of_char c :: nat) in if 65 \<le> n \<and> n \<le> 90 then char_of (n + 32) else c)"

definition lower :: "string \<Rightarrow> string" where
  "lower s = map lower_char s"

fun py_lower :: "json \<Rightarrow> error + string" where
  "py_lower (JStr s) = Inr (lower s)"
| "py_lower _ = Inl AttributeError"


section \<open>The cache file and the freshness check\<close>

text \<open>
  What a reader of \<^verbatim>\<open>VALID_ENTRIES_FILE\<close> can find: no file
  (\<^verbatim>\<open>os.path.exists\<close> is false, \<^verbatim>\<open>open\<close> raises \<^verbatim>\<open>FileNotFoundError\<close>),
  a file that cannot be opened or read (\<^verbatim>\<open>OSError\<close>), a file whose text
  \<^verbatim>\<open>json.load\<close> rejects (\<^verbatim>\<open>JSONDecodeError\<close>), a file on which
  \<^verbatim>\<open>json.load\<close> raises another exception, or a file holding a JSON value. The
  other exception is \<^verbatim>\<open>UnicodeDecodeError\<close> for bytes that are not text in the
  encoding of \<^verbatim>\<open>open\<close> (a \<^verbatim>\<open>ValueError\<close> that is no
  \<^verbatim>\<open>JSONDecodeError\<close>), or \<^verbatim>\<open>RecursionError\<close> for a nesting too deep; no
  handler of the programs catches either, and the model has one name for both.
\<close>

datatype file_state = Absent | Unreadable | Malformed | Undecodable | Holds json

text \<open>\<^verbatim>\<open>with open(VALID_ENTRIES_FILE, 'r') as f: json.load(f)\<close>\<close>

fun read_json :: "file_state \<Rightarrow> error + json" where
  "read_json Absent = Inl OSError"
| "read_json Unreadable = Inl OSError"
| "read_json Malformed = Inl JSONDecodeError"
| "read_json Undecodable = Inl UnicodeDecodeError"
| "read_json (Holds data) = Inr data"

text \<open>
  A \<^verbatim>\<open>datetime\<close> at midnight is its calendar date (year, month, day);
  \<^verbatim>\<open>a < b\<close> on two of them compares the components in that order.
\<close>

type_synonym date = "nat \<times> nat \<times> nat"

fun date_less :: "date \<Rightarrow> date \<Rightarrow> bool" where
  "date_less (y1, m1, d1) (y2, m2, d2) =
     (y1 < y2 \<or> (y1 = y2 \<and> (m1 < m2 \<or> (m1 = m2 \<and> d1 < d2))))"

definition TRADE_DEADLINE :: date where
  "TRADE_DEADLINE = (2024, 7, 30)"

text \<open>
  \<^verbatim>\<open>is_file_up_to_date(file_path, deadline)\<close>. The first argument stands for the
  library call \<^verbatim>\<open>datetime.strptime(s, '%Y-%m-%d')\<close> on a string: \<open>None\<close> is its
  \<^verbatim>\<open>ValueError\<close>. The second is what the file at \<^verbatim>\<open>file_path\<close> holds. The
  function catches \<^verbatim>\<open>JSONDecodeError\<close> and \<^verbatim>\<open>ValueError\<close> only: a file that
  exists and cannot be read or decoded, a JSON value without \<^verbatim>\<open>get\<close>, and a
  timestamp that is not a string (\<^verbatim>\<open>strptime\<close> raises \<^verbatim>\<open>TypeError\<close>) leave it as exceptions.
\<close>

definition is_file_up_to_date ::
    "(string \<Rightarrow> date option) \<Rightarrow> file_state \<Rightarrow> date \<Rightarrow> error + bool" where
  "is_file_up_to_date strptime file deadline =
     (case file of
        Absent \<Rightarrow> Inr False
      | Unreadable \<Rightarrow> Inl OSError
      | Malformed \<Rightarrow> Inr False
      | Undecodable \<Rightarrow> Inl UnicodeDecodeError
      | Holds data \<Rightarrow>
          (case py_get data ''timestamp'' (JStr ''1900-01-01'') of
             Inl e \<Rightarrow> Inl e
           | Inr (JStr last_updated_str) \<Rightarrow>
               (case strptime last_updated_str of
                  None \<Rightarrow> Inr False
                | Some last_updated \<Rightarrow> Inr (date_less deadline last_updated))
           | Inr _ \<Rightarrow> Inl TypeError))"

text \<open>
  A model of \<^verbatim>\<open>datetime.strptime(s, '%Y-%m-%d')\<close> on ASCII text, after the regular
  expression the library builds for that format: four digits, a dash, a month
  \<^verbatim>\<open>1[0-2]|0[1-9]|[1-9]\<close>, a dash, a day \<^verbatim>\<open>3[01]|[12]\d|0[1-9]|[1-9]| [1-9]\<close>,
  nothing after it, and a date that exists in the calendar. It instantiates the
  first argument of \<open>is_file_up_to_date\<close> on concrete inputs.
\<close>

definition digit :: "char \<Rightarrow> nat option" where
  "digit c =
     (let n = (of_char c :: nat) in if 48 \<le> n \<and> n \<le> 57 then Some (n - 48) else None)"

fun parse_year :: "string \<Rightarrow> (nat \<times> string) option" where
  "parse_year (a # b # c # d # rest) =
     (case (digit a, digit b, digit c, digit d) of
        (Some p, Some q, Some r, Some s) \<Rightarrow> Some (1000 * p + 100 * q + 10 * r + s, rest)
      | _ \<Rightarrow> None)"
| "parse_year _ = None"

fun parse_month :: "string \<Rightarrow> (nat \<times> string) option" where
  "parse_month [] = None"
| "parse_month [a] = (case digit a of Some p \<Rightarrow> (if 1 \<le> p then Some (p, []) else None) | None \<Rightarrow> None)"
| "parse_month (a # b # rest) =
     (case digit a of
        None \<Rightarrow> None
      | Some p \<Rightarrow>
          (case digit b of
             Some q \<Rightarrow>
               if p = 1 \<and> q \<le> 2 then Some (10 + q, rest)
               else if p = 0 \<and> 1 \<le> q then Some (q, rest)
               else if 1 \<le> p then Some (p, b # rest)
               else None
           | None \<Rightarrow> if 1 \<le> p then Some (p, b # rest) else None))"

fun parse_day :: "string \<Rightarrow> (nat \<times> string) option" where
  "parse_day [] = None"
| "parse_day [a] = (case digit a of Some p \<Rightarrow> (if 1 \<le> p then Some (p, []) else None) | None \<Rightarrow> None)"
| "parse_day (a # b # rest) =
     (case digit a of
        Some p \<Rightarrow>
          (case digit b of
             Some q \<Rightarrow>
               if p = 3 \<and> q \<le> 1 then Some (30 + q, rest)
               else if p = 1 \<or> p = 2 then Some (10 * p + q, rest)
               else if p = 0 \<and> 1 \<le> q then Some (q, rest)
               else if 1 \<le> p then Some (p, b # rest)
               else None
           | None \<Rightarrow> if 1 \<le> p then Some (p, b # rest) else None)
      | None \<Rightarrow>
          (if a = CHR '' '' then
             (case digit b of Some q \<Rightarrow> (if 1 \<le> q then Some (q, rest) else None) | None \<Rightarrow> None)
           else None))"

definition days_in_month :: "nat \<Rightarrow> nat \<Rightarrow> nat" where
  "days_in_month y m =
     (if m = 2 then (if y mod 4 = 0 \<and> (y mod 100 \<noteq> 0 \<or> y mod 400 = 0) then 29 else 28)
      else if m = 4 \<or> m = 6 \<or> m = 9 \<or> m = 11 then 30
      else 31)"

definition strptime_ymd :: "string \<Rightarrow> date option" where
  "strptime_ymd s =
     (case parse_year s of
        None \<Rightarrow> None
      | Some (y, r1) \<Rightarrow>
          (case r1 of
             [] \<Rightarrow> None
           | c1 # r2 \<Rightarrow>
               if c1 \<noteq> CHR ''-'' then None
               else (case parse_month r2 of
                  None \<Rightarrow> None
                | Some (m, r3) \<Rightarrow>
                    (case r3 of
                       [] \<Rightarrow> None
                     | c2 # r4 \<Rightarrow>
                         if c2 \<noteq> CHR ''-'' then None
                         else (case parse_day r4 of
                            None \<Rightarrow> None
                          | Some (d, r5) \<Rightarrow>
                              if r5 = [] \<and> 1 \<le> y \<and> d \<le> days_in_month y m
                              then Some (y, m, d) else None)))))"


section \<open>Refreshing the catalog from the statistics service\<close>

text \<open>
  One HTTP request, as far as the programs tell its outcomes apart:
  \<^verbatim>\<open>requests.get\<close> or \<^verbatim>\<open>raise_for_status\<close> raises a \<^verbatim>\<open>RequestException\<close>
  (\<open>Failed\<close>); the response arrives and \<^verbatim>\<open>response.json()\<close> rejects its body
  (\<open>Unparseable\<close>: the exception \<^verbatim>\<open>requests\<close> raises there is both a
  \<^verbatim>\<open>RequestException\<close> and a \<^verbatim>\<open>json.JSONDecodeError\<close>, so either handler
  catches it); or the body parses.
\<close>

datatype http_outcome = Failed | Unparseable | Body json

text \<open>
  Writing the cache, \<^verbatim>\<open>open(VALID_ENTRIES_FILE, 'w')\<close> then \<^verbatim>\<open>json.dump\<close>:
  it succeeds, or \<^verbatim>\<open>open\<close> raises \<^verbatim>\<open>OSError\<close> and the file is untouched, or
  the \<^verbatim>\<open>OSError\<close> comes after the file was truncated and leaves incomplete text.
\<close>

datatype write_outcome = Written | Refused | Torn

fun write_cache :: "write_outcome \<Rightarrow> json \<Rightarrow> file_state \<Rightarrow> file_state" where
  "write_cache Written data file = Holds data"
| "write_cache Refused data file = file"
| "write_cache Torn data file = Malformed"

text \<open>
  What a refresh meets outside the program: the answers of the statistics service
  (the roster request is made per team id), today's date as
  \<^verbatim>\<open>datetime.now().strftime('%Y-%m-%d')\<close> prints it, and the fate of the write.
\<close>

record world =
  teams_request :: http_outcome
  roster_request :: "json \<Rightarrow> http_outcome"
  people_request :: http_outcome
  today :: string
  disk_write :: write_outcome

text \<open>The dictionary \<^verbatim>\<open>{"id": i, "name": n}\<close> that both refresh variants store.\<close>

definition entity :: "json \<Rightarrow> json \<Rightarrow> json" where
  "entity i n = JObj [(''id'', i), (''name'', n)]"

subsection \<open>The roster-based refresh\<close>

text \<open>
  \<^verbatim>\<open>fetch_and_cache_valid_entries\<close> of final_presentation.py,
  final_presentation_v2.py and the first program of Outfield.py. Step 3, the loop
  over the roster entries of one team, appending to \<^verbatim>\<open>valid_data["players"]\<close>:
\<close>

fun collect_players :: "json list \<Rightarrow> json list \<Rightarrow> error + json list" where
  "collect_players [] players = Inr players"
| "collect_players (entry # rest) players =
     (case py_get entry ''person'' JNull of
        Inl e \<Rightarrow> Inl e
      | Inr p \<Rightarrow>
          (case py_get (if truthy p then p else JObj []) ''id'' JNull of
             Inl e \<Rightarrow> Inl e
           | Inr pid \<Rightarrow>
               (case py_get (if truthy p then p else JObj []) ''fullName'' JNull of
                  Inl e \<Rightarrow> Inl e
                | Inr pname \<Rightarrow>
                    if truthy pid \<and> truthy pname
                    then collect_players rest (players @ [entity pid pname])
                    else collect_players rest players)))"

text \<open>The roster request of one team, with its handler.\<close>

definition roster_entries :: "world \<Rightarrow> json \<Rightarrow> error + json" where
  "roster_entries w team_id =
     (case roster_request w team_id of
        Failed \<Rightarrow> Inr (JArr [])
      | Unparseable \<Rightarrow> Inr (JArr [])
      | Body b \<Rightarrow> py_get b ''roster'' (JArr []))"

text \<open>Step 2, the loop over the teams; the accumulator is (teams, players).\<close>

fun collect_teams ::
    "world \<Rightarrow> json list \<Rightarrow> json list \<times> json list \<Rightarrow> error + json list \<times> json list" where
  "collect_teams w [] acc = Inr acc"
| "collect_teams w (team # rest) (teams, players) =
     (case py_get team ''id'' JNull of
        Inl e \<Rightarrow> Inl e
      | Inr team_id \<Rightarrow>
          (case py_get team ''name'' JNull of
             Inl e \<Rightarrow> Inl e
           | Inr team_name \<Rightarrow>
               if \<not> truthy team_id \<or> \<not> truthy team_name
               then collect_teams w rest (teams, players)
               else (case roster_entries w team_id of
                  Inl e \<Rightarrow> Inl e
                | Inr r \<Rightarrow>
                    (case py_iter r of
                       Inl e \<Rightarrow> Inl e
                     | Inr entries \<Rightarrow>
                         (case collect_players entries players of
                            Inl e \<Rightarrow> Inl e
                          | Inr players' \<Rightarrow>
                              collect_teams w rest
                                (teams @ [entity team_id team_name], players'))))))"

text \<open>Step 1, the team listing with its handler.\<close>

definition teams_list :: "world \<Rightarrow> error + json" where
  "teams_list w =
     (case teams_request w of
        Failed \<Rightarrow> Inr (JArr [])
      | Unparseable \<Rightarrow> Inr (JArr [])
      | Body b \<Rightarrow> py_get b ''teams'' (JArr []))"

definition catalog :: "json list \<Rightarrow> json list \<Rightarrow> string \<Rightarrow> json" where
  "catalog teams players stamp =
     JObj [(''teams'', JArr teams), (''players'', JArr players), (''timestamp'', JStr stamp)]"

text \<open>The dictionary \<^verbatim>\<open>valid_data\<close> as it stands before step 4.\<close>

definition valid_data :: "world \<Rightarrow> error + json" where
  "valid_data w =
     (case teams_list w of
        Inl e \<Rightarrow> Inl e
      | Inr listing \<Rightarrow>
          (case py_iter listing of
             Inl e \<Rightarrow> Inl e
           | Inr ts \<Rightarrow>
               (case collect_teams w ts ([], []) of
                  Inl e \<Rightarrow> Inl e
                | Inr (teams, players) \<Rightarrow> Inr (catalog teams players (today w)))))"

text \<open>
  The whole function: the cache file before, the cache file after. An
  \<^verbatim>\<open>OSError\<close> of the write is caught and printed.
\<close>

definition fetch_and_cache_valid_entries :: "world \<Rightarrow> file_state \<Rightarrow> error + file_state" where
  "fetch_and_cache_valid_entries w file =
     (case valid_data w of
        Inl e \<Rightarrow> Inl e
      | Inr v \<Rightarrow> Inr (write_cache (disk_write w) v file))"

subsection \<open>The bulk refresh\<close>

text \<open>
  \<^verbatim>\<open>fetch_and_cache_valid_entries\<close> of FinalProjectv2.py and of the second program
  of Outfield.py. The comprehension
  \<^verbatim>\<open>[{"id": p['id'], "name": p[key]} for p in data]\<close>:
\<close>

fun pick_entities :: "string \<Rightarrow> json list \<Rightarrow> error + json list" where
  "pick_entities key [] = Inr []"
| "pick_entities key (p # ps) =
     (case py_item p ''id'' of
        Inl e \<Rightarrow> Inl e
      | Inr i \<Rightarrow>
          (case py_item p key of
             Inl e \<Rightarrow> Inl e
           | Inr n \<Rightarrow>
               (case pick_entities key ps of
                  Inl e \<Rightarrow> Inl e
                | Inr es \<Rightarrow> Inr (entity i n # es))))"

text \<open>
  The dictionary \<^verbatim>\<open>valid_data\<close> of the bulk variant; \<open>None\<close> is one of its two
  early returns, after which nothing is written.
\<close>

definition valid_data_bulk :: "world \<Rightarrow> error + json option" where
  "valid_data_bulk w =
     (if people_request w = Failed \<or> teams_request w = Failed then Inr None
      else
     (case people_request w of
        Failed \<Rightarrow> Inr None
      | Unparseable \<Rightarrow> Inr None
      | Body pb \<Rightarrow>
     (case py_get pb ''people'' (JArr []) of
        Inl e \<Rightarrow> Inl e
      | Inr player_data \<Rightarrow>
     (case teams_request w of
        Failed \<Rightarrow> Inr None
      | Unparseable \<Rightarrow> Inr None
      | Body tb \<Rightarrow>
     (case py_get tb ''teams'' (JArr []) of
        Inl e \<Rightarrow> Inl e
      | Inr team_data \<Rightarrow>
     (case py_iter player_data of
        Inl e \<Rightarrow> Inl e
      | Inr ps \<Rightarrow>
     (case pick_entities ''fullName'' ps of
        Inl e \<Rightarrow> Inl e
      | Inr players \<Rightarrow>
     (case py_iter team_data of
        Inl e \<Rightarrow> Inl e
      | Inr ts \<Rightarrow>
     (case pick_entities ''name'' ts of
        Inl e \<Rightarrow> Inl e
      | Inr teams \<Rightarrow>
          Inr (Some (JObj
            [(''players'', JArr players),
             (''teams'', JArr teams),
             (''timestamp'', JStr (today w))])))))))))))"

definition fetch_and_cache_valid_entries_bulk ::
    "world \<Rightarrow> file_state \<Rightarrow> error + file_state" where
  "fetch_and_cache_valid_entries_bulk w file =
     (case valid_data_bulk w of
        Inl e \<Rightarrow> Inl e
      | Inr None \<Rightarrow> Inr file
      | Inr (Some v) \<Rightarrow> Inr (write_cache (disk_write w) v file))"


section \<open>Loading the catalog\<close>

definition empty_catalog :: json where
  "empty_catalog = JObj [(''players'', JArr []), (''teams'', JArr [])]"

text \<open>
  \<^verbatim>\<open>load_or_update_valid_entries()\<close>, the same text in final_presentation.py,
  final_presentation_v2.py and FinalProjectv2.py. \<open>fetch\<close> is
  the program's own \<^verbatim>\<open>fetch_and_cache_valid_entries\<close> in its world. The file is
  opened once by the freshness check (\<open>file\<close>) and once more after a positive check
  (\<open>later\<close>); the handler of that second read exists because the two can differ.
  The result pairs a flag, whether \<^verbatim>\<open>fetch_and_cache_valid_entries\<close> was called,
  with what the caller gets: a value or an exception.
\<close>

definition load_or_update_valid_entries ::
    "(string \<Rightarrow> date option) \<Rightarrow> (file_state \<Rightarrow> error + file_state) \<Rightarrow>
     file_state \<Rightarrow> file_state \<Rightarrow> bool \<times> (error + json)" where
  "load_or_update_valid_entries strptime fetch file later =
     (case is_file_up_to_date strptime file TRADE_DEADLINE of
        Inl e \<Rightarrow> (False, Inl e)
      | Inr True \<Rightarrow>
          (case read_json later of
             Inr data \<Rightarrow> (False, Inr data)
           | Inl e \<Rightarrow>
               if e = JSONDecodeError \<or> e = OSError
               then (True,
                     case fetch later of
                       Inl e' \<Rightarrow> Inl e'
                     | Inr file' \<Rightarrow> read_json file')
               else (False, Inl e))
      | Inr False \<Rightarrow>
          (True,
           case fetch file of
             Inl e' \<Rightarrow> Inl e'
           | Inr file' \<Rightarrow>
               (case read_json file' of
                  Inr data \<Rightarrow> Inr data
                | Inl e \<Rightarrow>
                    if e = JSONDecodeError \<or> e = OSError
                    then Inr empty_catalog else Inl e)))"


section \<open>News and sentiment\<close>

text \<open>
  \<^verbatim>\<open>fetch_news(query, from_date, to_date)\<close>. \<open>requests_get\<close> is the outcome of
  the request to a URL; the key is the module's \<^verbatim>\<open>NEWS_API_KEY\<close>. Three texts
  exist: final_presentation.py and FinalProjectv2.py; final_presentation_v2.py and
  the first program of Outfield.py (ten articles at most); the second program of
  Outfield.py, whose only handler is for \<^verbatim>\<open>json.JSONDecodeError\<close>.
\<close>

definition NEWS_API_URL :: string where
  "NEWS_API_URL = ''https://gnews.io/api/v4/search''"

definition fetch_news ::
    "(string \<Rightarrow> http_outcome) \<Rightarrow> string \<Rightarrow> string \<Rightarrow> string \<Rightarrow> string \<Rightarrow> error + json" where
  "fetch_news requests_get key query from_date to_date =
     (case requests_get
             (NEWS_API_URL @ ''?q='' @ query @ ''&from='' @ from_date @ ''&to='' @ to_date
                @ ''&token='' @ key) of
        Failed \<Rightarrow> Inr (JArr [])
      | Unparseable \<Rightarrow> Inr (JArr [])
      | Body data \<Rightarrow> py_get data ''articles'' (JArr []))"

definition fetch_news_v2 ::
    "(string \<Rightarrow> http_outcome) \<Rightarrow> string \<Rightarrow> string \<Rightarrow> string \<Rightarrow> string \<Rightarrow> error + json" where
  "fetch_news_v2 requests_get key query from_date to_date =
     (case requests_get
             (NEWS_API_URL @ ''?q='' @ query @ ''&from='' @ from_date @ ''&to='' @ to_date
                @ ''&max='' @ ''10'' @ ''&token='' @ key) of
        Failed \<Rightarrow> Inr (JArr [])
      | Unparseable \<Rightarrow> Inr (JArr [])
      | Body data \<Rightarrow> py_get data ''articles'' (JArr []))"

definition fetch_news_final_proj ::
    "(string \<Rightarrow> http_outcome) \<Rightarrow> string \<Rightarrow> string \<Rightarrow> string \<Rightarrow> string \<Rightarrow> error + json" where
  "fetch_news_final_proj requests_get key query from_date to_date =
     (case requests_get
             (''https://gnews.io.api/v4/search'' @ ''?q='' @ query @ ''&from='' @ from_date
                @ ''&to='' @ to_date @ ''&token='' @ key) of
        Failed \<Rightarrow> Inl RequestException
      | Unparseable \<Rightarrow> Inr (JArr [])
      | Body data \<Rightarrow> py_get data ''articles'' (JArr []))"

text \<open>
  \<^verbatim>\<open>analyze_sentiment(articles)\<close>. \<open>sia\<close> is the compound value of
  \<^verbatim>\<open>SentimentIntensityAnalyzer().polarity_scores\<close> on a text. The scorer reads a
  string; handed another object it calls \<^verbatim>\<open>encode\<close> on it, which numbers, lists,
  dictionaries and \<^verbatim>\<open>True\<close> do not have, as an article that is no
  dictionary does not have \<^verbatim>\<open>get\<close>. The assignment
  \<^verbatim>\<open>article['sentiment_score'] = ...\<close> replaces the key's value or appends the key.
\<close>

fun analyze_sentiment :: "(string \<Rightarrow> real) \<Rightarrow> json list \<Rightarrow> error + json list" where
  "analyze_sentiment sia [] = Inr []"
| "analyze_sentiment sia (article # rest) =
     (case article of
        JObj kvs \<Rightarrow>
          (case (if truthy (dict_get kvs ''description'' (JStr ''''))
                 then dict_get kvs ''description'' (JStr '''') else JStr '''') of
             JStr content \<Rightarrow>
               (case analyze_sentiment sia rest of
                  Inl e \<Rightarrow> Inl e
                | Inr rest' \<Rightarrow>
                    Inr (JObj (AList.update ''sentiment_score'' (JFloat (sia content)) kvs)
                         # rest'))
           | _ \<Rightarrow> Inl AttributeError)
      | _ \<Rightarrow> Inl AttributeError)"

text \<open>
  \<^verbatim>\<open>categorize_score(score)\<close> of final_presentation_v2.py and Outfield.py.
\<close>

definition categorize_score :: "real \<Rightarrow> string" where
  "categorize_score score =
     (if score \<le> - 0.667 then ''Strongly negative''
      else if score \<le> - 0.334 then ''Moderately negative''
      else if score < 0.0 then ''Slightly negative''
      else if score = 0.0 then ''Neutral''
      else if score \<le> 0.333 then ''Slightly positive''
      else if score \<le> 0.666 then ''Moderately positive''
      else ''Strongly positive'')"


section \<open>Resolving the user's input\<close>

text \<open>
  The part of \<^verbatim>\<open>main()\<close> of final_presentation.py and FinalProjectv2.py between
  reading the input and fetching statistics. The three variables
  \<^verbatim>\<open>entity_id\<close>, \<^verbatim>\<open>entity_type\<close>, \<^verbatim>\<open>entity_name\<close> are a triple, \<open>JNull\<close> for
  \<^verbatim>\<open>None\<close>. One \<^verbatim>\<open>for ... break\<close> loop, for teams (\<open>kind = ''team''\<close>) and
  for players (\<open>kind = ''player''\<close>):
\<close>

type_synonym selection = "json \<times> json \<times> json"

fun match_loop :: "string \<Rightarrow> string \<Rightarrow> json list \<Rightarrow> selection \<Rightarrow> error + selection" where
  "match_loop user_input kind [] sel = Inr sel"
| "match_loop user_input kind (x # rest) sel =
     (case py_item x ''name'' of
        Inl e \<Rightarrow> Inl e
      | Inr n \<Rightarrow>
          (case py_lower n of
             Inl e \<Rightarrow> Inl e
           | Inr name_lower \<Rightarrow>
               if sublist (lower user_input) name_lower
               then (case py_item x ''id'' of
                  Inl e \<Rightarrow> Inl e
                | Inr i \<Rightarrow> Inr (i, JStr kind, n))
               else match_loop user_input kind rest sel))"

text \<open>
  The outcome of the resolution: the message "Invalid input" and a return, or the
  three variables as the rest of \<^verbatim>\<open>main()\<close> uses them.
\<close>

datatype resolution = Invalid | Resolved json json json

definition resolve :: "json \<Rightarrow> string \<Rightarrow> error + resolution" where
  "resolve valid_entries user_input =
     (case py_get valid_entries ''teams'' (JArr []) of
        Inl e \<Rightarrow> Inl e
      | Inr listing \<Rightarrow>
     (case py_iter listing of
        Inl e \<Rightarrow> Inl e
      | Inr teams \<Rightarrow>
     (case match_loop user_input ''team'' teams (JNull, JNull, JNull) of
        Inl e \<Rightarrow> Inl e
      | Inr sel1 \<Rightarrow>
     (case py_get valid_entries ''players'' (JArr []) of
        Inl e \<Rightarrow> Inl e
      | Inr plisting \<Rightarrow>
     (case py_iter plisting of
        Inl e \<Rightarrow> Inl e
      | Inr players \<Rightarrow>
     (case match_loop user_input ''player'' players sel1 of
        Inl e \<Rightarrow> Inl e
      | Inr (id2, type2, name2) \<Rightarrow>
          (let (entity_id, entity_type, entity_name) =
                 (if \<not> truthy id2 \<and> lower user_input = ''mlb''
                  then (JNull, JStr ''league'', JStr ''MLB'')
                  else (id2, type2, name2))
           in if \<not> truthy entity_id \<and> entity_type \<noteq> JStr ''league''
              then Inr Invalid
              else Inr (Resolved entity_id entity_type entity_name))))))))"


section \<open>Vocabulary of the statements\<close>

text \<open>The list a catalog holds under a key; empty when there is none.\<close>

definition stored :: "string \<Rightarrow> json \<Rightarrow> json list" where
  "stored key v = (case py_get v key (JArr []) of Inr (JArr xs) \<Rightarrow> xs | _ \<Rightarrow> [])"

text \<open>An entity with an id that is not null and a name that is neither null nor empty.\<close>

definition has_id_and_name :: "json \<Rightarrow> bool" where
  "has_id_and_name x =
     (case x of
        JObj kvs \<Rightarrow>
          (case (map_of kvs ''id'', map_of kvs ''name'') of
             (Some i, Some n) \<Rightarrow> i \<noteq> JNull \<and> n \<noteq> JNull \<and> n \<noteq> JStr ''''
           | _ \<Rightarrow> False)
      | _ \<Rightarrow> False)"

text \<open>
  An upstream team that the roster-based refresh keeps, the entity it stores for
  it, and the players it stores for one roster entry and for one team's roster.
\<close>

definition team_id :: "json \<Rightarrow> json" where
  "team_id team = (case team of JObj kvs \<Rightarrow> dict_get kvs ''id'' JNull | _ \<Rightarrow> JNull)"

definition team_name :: "json \<Rightarrow> json" where
  "team_name team = (case team of JObj kvs \<Rightarrow> dict_get kvs ''name'' JNull | _ \<Rightarrow> JNull)"

definition team_valid :: "json \<Rightarrow> bool" where
  "team_valid team = (truthy (team_id team) \<and> truthy (team_name team))"

definition team_entity :: "json \<Rightarrow> json" where
  "team_entity team = entity (team_id team) (team_name team)"

definition entry_players :: "json \<Rightarrow> json list" where
  "entry_players entry =
     (case py_get entry ''person'' JNull of
        Inr (JObj pk) \<Rightarrow>
          if truthy (dict_get pk ''id'' JNull) \<and> truthy (dict_get pk ''fullName'' JNull)
          then [entity (dict_get pk ''id'' JNull) (dict_get pk ''fullName'' JNull)]
          else []
      | _ \<Rightarrow> [])"

definition roster_players :: "world \<Rightarrow> json \<Rightarrow> json list" where
  "roster_players w team =
     (case roster_request w (team_id team) of
        Failed \<Rightarrow> []
      | Unparseable \<Rightarrow> []
      | Body b \<Rightarrow>
          (case py_get b ''roster'' (JArr []) of
             Inr r \<Rightarrow>
               (case py_iter r of
                  Inr entries \<Rightarrow> concat (map entry_players entries)
                | Inl e \<Rightarrow> [])
           | Inl e \<Rightarrow> []))"

text \<open>The teams the listing request delivers to the loop; none when it raises.\<close>

definition listed_teams :: "world \<Rightarrow> json list" where
  "listed_teams w =
     (case teams_list w of
        Inr listing \<Rightarrow> (case py_iter listing of Inr ts \<Rightarrow> ts | Inl e \<Rightarrow> [])
      | Inl e \<Rightarrow> [])"

text \<open>
  The same world, with the roster request raising for every team id in \<open>F\<close> and
  answering with a body that is not JSON for every other team id in \<open>U\<close>.
\<close>

definition failing :: "json set \<Rightarrow> json set \<Rightarrow> world \<Rightarrow> world" where
  "failing F U w =
     w\<lparr>roster_request :=
         (\<lambda>i. if i \<in> F then Failed else if i \<in> U then Unparseable else roster_request w i)\<rparr>"


text \<open>
  A catalog entry that a loop of \<^verbatim>\<open>main()\<close> reads without an exception (a
  dictionary with an id and a string name), whether such an entry matches the
  input, and its id and name.
\<close>

definition catalog_entry :: "json \<Rightarrow> bool" where
  "catalog_entry x =
     (case x of
        JObj kvs \<Rightarrow>
          (case map_of kvs ''name'' of
             Some (JStr n) \<Rightarrow> map_of kvs ''id'' \<noteq> None
           | _ \<Rightarrow> False)
      | _ \<Rightarrow> False)"

definition matches :: "string \<Rightarrow> json \<Rightarrow> bool" where
  "matches user_input x =
     (case py_item x ''name'' of
        Inr (JStr n) \<Rightarrow> sublist (lower user_input) (lower n)
      | _ \<Rightarrow> False)"

definition id_of :: "json \<Rightarrow> json" where
  "id_of x = (case py_item x ''id'' of Inr i \<Rightarrow> i | Inl e \<Rightarrow> JNull)"

definition name_of :: "json \<Rightarrow> json" where
  "name_of x = (case py_item x ''name'' of Inr n \<Rightarrow> n | Inl e \<Rightarrow> JNull)"

text \<open>
  An article that \<^verbatim>\<open>analyze_sentiment\<close> can hand to the scorer (a dictionary
  whose description is a string or counts as false), the text it hands over, and
  the article with a score attached.
\<close>

definition scorable :: "json \<Rightarrow> bool" where
  "scorable article =
     (case article of
        JObj kvs \<Rightarrow>
          (case dict_get kvs ''description'' (JStr '''') of
             JStr s \<Rightarrow> True
           | d \<Rightarrow> \<not> truthy d)
      | _ \<Rightarrow> False)"

definition scored_text :: "json \<Rightarrow> string" where
  "scored_text article =
     (case article of
        JObj kvs \<Rightarrow> (case map_of kvs ''description'' of Some (JStr s) \<Rightarrow> s | _ \<Rightarrow> '''')
      | _ \<Rightarrow> '''')"

definition with_score :: "real \<Rightarrow> json \<Rightarrow> json" where
  "with_score v article =
     (case article of
        JObj kvs \<Rightarrow> JObj (AList.update ''sentiment_score'' (JFloat v) kvs)
      | x \<Rightarrow> x)"

subsection \<open>Concrete inputs\<close>

text \<open>A cache written on 1 May 2025, and a world without network.\<close>

definition fresh_cache :: json where
  "fresh_cache = catalog [] [] ''2025-05-01''"

definition offline :: world where
  "offline =
     \<lparr>teams_request = Failed, roster_request = (\<lambda>i. Failed), people_request = Failed,
      today = ''2025-05-02'', disk_write = Written\<rparr>"

text \<open>The Yankees with one player, the Mets with a roster request that fails.\<close>

definition two_teams :: world where
  "two_teams =
     \<lparr>teams_request = Body (JObj [(''teams'', JArr
         [JObj [(''id'', JInt 147), (''name'', JStr ''New York Yankees'')],
          JObj [(''id'', JNull), (''name'', JStr ''Nameless'')],
          JObj [(''id'', JInt 121), (''name'', JStr ''New York Mets'')]])]),
      roster_request = (\<lambda>i. if i = JInt 147
         then Body (JObj [(''roster'', JArr
           [JObj [(''person'', JObj [(''id'', JInt 592450), (''fullName'', JStr ''Aaron Judge'')])],
            JObj [(''person'', JObj [(''id'', JInt 7), (''fullName'', JStr '''')])]])])
         else Failed),
      people_request = Failed, today = ''2025-05-02'', disk_write = Written\<rparr>"


text \<open>A team listing whose only entry has a null id and an empty name.\<close>

definition nameless_upstream :: world where
  "nameless_upstream =
     \<lparr>teams_request = Body (JObj [(''teams'', JArr
         [JObj [(''id'', JNull), (''name'', JStr '''')]])]),
      roster_request = (\<lambda>i. Failed),
      people_request = Body (JObj [(''people'', JArr [])]),
      today = ''2025-05-02'', disk_write = Written\<rparr>"

text \<open>A team listing whose only entry has a name and no id.\<close>

definition keyless_upstream :: world where
  "keyless_upstream =
     \<lparr>teams_request = Body (JObj [(''teams'', JArr
         [JObj [(''name'', JStr ''New York Yankees'')]])]),
      roster_request = (\<lambda>i. Failed),
      people_request = Body (JObj [(''people'', JArr [])]),
      today = ''2025-05-02'', disk_write = Written\<rparr>"

text \<open>A cache written on the day of the deadline.\<close>

definition stale_cache :: json where
  "stale_cache = catalog [] [] ''2024-07-30''"


section \<open>Freshness of the cache and loading the catalog\<close>

lemma strptime_fresh_cache: "strptime_ymd ''2025-05-01'' = Some (2025, 5, 1)"
  by (simp add: strptime_ymd_def digit_def days_in_month_def)

lemma strptime_stale_cache: "strptime_ymd ''2024-07-30'' = Some (2024, 7, 30)"
  by (simp add: strptime_ymd_def digit_def days_in_month_def)

lemma strptime_deadline: "strptime_ymd ''2024-07-30'' = Some TRADE_DEADLINE"
  by (simp add: strptime_stale_cache TRADE_DEADLINE_def)

lemma strptime_soon: "strptime_ymd ''soon'' = None"
  by (simp add: strptime_ymd_def digit_def)

lemma fresh_cache_is_fresh:
  "is_file_up_to_date strptime_ymd (Holds fresh_cache) TRADE_DEADLINE = Inr True"
  by (simp add: is_file_up_to_date_def fresh_cache_def catalog_def dict_get_def
      TRADE_DEADLINE_def strptime_fresh_cache)

lemma stale_cache_is_stale:
  "is_file_up_to_date strptime_ymd (Holds stale_cache) TRADE_DEADLINE = Inr False"
  by (simp add: is_file_up_to_date_def stale_cache_def catalog_def dict_get_def
      TRADE_DEADLINE_def strptime_stale_cache)

lemma date_not_less: "\<not> date_less a b \<longleftrightarrow> b = a \<or> date_less b a"
proof -
  obtain y1 m1 d1 where a: "a = (y1, m1, d1)" by (cases a) auto
  obtain y2 m2 d2 where b: "b = (y2, m2, d2)" by (cases b) auto
  show ?thesis unfolding a b by auto
qed

lemma is_file_up_to_date_True_iff:
  "is_file_up_to_date strptime f deadline = Inr True \<longleftrightarrow>
     (\<exists>kvs s d. f = Holds (JObj kvs) \<and>
        dict_get kvs ''timestamp'' (JStr ''1900-01-01'') = JStr s \<and>
        strptime s = Some d \<and> date_less deadline d)"
proof (cases f)
  case (Holds data)
  then show ?thesis
    by (cases data) (auto simp add: is_file_up_to_date_def split: json.splits option.splits)
qed (simp_all add: is_file_up_to_date_def)

lemma is_file_up_to_date_False_iff:
  "is_file_up_to_date strptime f deadline = Inr False \<longleftrightarrow>
     f = Absent \<or> f = Malformed \<or>
     (\<exists>kvs s. f = Holds (JObj kvs) \<and>
        dict_get kvs ''timestamp'' (JStr ''1900-01-01'') = JStr s \<and>
        (strptime s = None \<or>
         (\<exists>d. strptime s = Some d \<and> (d = deadline \<or> date_less d deadline))))"
proof (cases f)
  case (Holds data)
  then show ?thesis
    by (cases data)
       (auto simp add: is_file_up_to_date_def date_not_less split: json.splits option.splits)
qed (simp_all add: is_file_up_to_date_def)

lemma refresh_iff:
  "fst (load_or_update_valid_entries strptime fetch f later) \<longleftrightarrow>
     is_file_up_to_date strptime f TRADE_DEADLINE = Inr False \<or>
     (is_file_up_to_date strptime f TRADE_DEADLINE = Inr True \<and>
      (read_json later = Inl JSONDecodeError \<or> read_json later = Inl OSError))"
  by (cases "is_file_up_to_date strptime f TRADE_DEADLINE"; cases later)
     (auto simp add: load_or_update_valid_entries_def split: bool.splits)

text \<open>
  C1, as stated, fails in its last part: a refresh also happens after a positive
  check. The cache is fresh when \<^verbatim>\<open>is_file_up_to_date\<close> reads it and cannot be
  read when \<^verbatim>\<open>load_or_update_valid_entries\<close> opens it next; the handler of that
  read calls \<^verbatim>\<open>fetch_and_cache_valid_entries\<close>.
\<close>

theorem refresh_despite_fresh_cache:
  "is_file_up_to_date strptime_ymd (Holds fresh_cache) TRADE_DEADLINE = Inr True \<and>
   fst (load_or_update_valid_entries strptime_ymd (fetch_and_cache_valid_entries offline)
          (Holds fresh_cache) Unreadable)"
  by (simp add: load_or_update_valid_entries_def fresh_cache_is_fresh)

text \<open>
  C1, amended. \<^verbatim>\<open>is_file_up_to_date\<close> returns True if and only if the cache file
  exists and holds a JSON object whose timestamp (''1900-01-01'' when the key is
  missing) is a string that parses in the format YYYY-MM-DD to a date strictly after
  the deadline. It returns False if and only if the file is missing, or is not JSON,
  or holds a JSON object whose timestamp string does not parse or parses to the
  deadline or a date before it. \<^verbatim>\<open>load_or_update_valid_entries\<close> refreshes
  whenever the check is False, and returns what the refresh wrote; after a check that
  is True it refreshes only if reading the cache then raises
  \<^verbatim>\<open>JSONDecodeError\<close> or \<^verbatim>\<open>OSError\<close>, returning what that refresh wrote, and
  returns the cache as read otherwise.
\<close>

theorem freshness_check:
  "(is_file_up_to_date strptime f deadline = Inr True \<longleftrightarrow>
      (\<exists>kvs s d. f = Holds (JObj kvs) \<and>
         dict_get kvs ''timestamp'' (JStr ''1900-01-01'') = JStr s \<and>
         strptime s = Some d \<and> date_less deadline d)) \<and>
   (is_file_up_to_date strptime f deadline = Inr False \<longleftrightarrow>
      f = Absent \<or> f = Malformed \<or>
      (\<exists>kvs s. f = Holds (JObj kvs) \<and>
         dict_get kvs ''timestamp'' (JStr ''1900-01-01'') = JStr s \<and>
         (strptime s = None \<or>
          (\<exists>d. strptime s = Some d \<and> (d = deadline \<or> date_less d deadline))))) \<and>
   is_file_up_to_date strptime Absent deadline = Inr False \<and>
   is_file_up_to_date strptime Malformed deadline = Inr False \<and>
   (dict_get kvs' ''timestamp'' (JStr ''1900-01-01'') = JStr s' \<and> strptime s' = None \<longrightarrow>
      is_file_up_to_date strptime (Holds (JObj kvs')) deadline = Inr False) \<and>
   (dict_get kvs' ''timestamp'' (JStr ''1900-01-01'') = JStr s' \<and> strptime s' = Some d' \<and>
    (d' = deadline \<or> date_less d' deadline) \<longrightarrow>
      is_file_up_to_date strptime (Holds (JObj kvs')) deadline = Inr False) \<and>
   (fst (load_or_update_valid_entries strptime fetch f later) \<longleftrightarrow>
      is_file_up_to_date strptime f TRADE_DEADLINE = Inr False \<or>
      (is_file_up_to_date strptime f TRADE_DEADLINE = Inr True \<and>
       (read_json later = Inl JSONDecodeError \<or> read_json later = Inl OSError))) \<and>
   (is_file_up_to_date strptime f TRADE_DEADLINE = Inr False \<and> fetch f = Inr (Holds data) \<longrightarrow>
      load_or_update_valid_entries strptime fetch f later = (True, Inr data)) \<and>
   (is_file_up_to_date strptime f TRADE_DEADLINE = Inr True \<and> read_json later = Inr data \<longrightarrow>
      load_or_update_valid_entries strptime fetch f later = (False, Inr data)) \<and>
   (is_file_up_to_date strptime f TRADE_DEADLINE = Inr True \<and>
    (read_json later = Inl JSONDecodeError \<or> read_json later = Inl OSError) \<and>
    fetch later = Inr (Holds data) \<longrightarrow>
      load_or_update_valid_entries strptime fetch f later = (True, Inr data))"
proof (intro conjI)
  show "is_file_up_to_date strptime f deadline = Inr True \<longleftrightarrow>
      (\<exists>kvs s d. f = Holds (JObj kvs) \<and>
         dict_get kvs ''timestamp'' (JStr ''1900-01-01'') = JStr s \<and>
         strptime s = Some d \<and> date_less deadline d)"
    by (rule is_file_up_to_date_True_iff)
  show "is_file_up_to_date strptime f deadline = Inr False \<longleftrightarrow>
      f = Absent \<or> f = Malformed \<or>
      (\<exists>kvs s. f = Holds (JObj kvs) \<and>
         dict_get kvs ''timestamp'' (JStr ''1900-01-01'') = JStr s \<and>
         (strptime s = None \<or>
          (\<exists>d. strptime s = Some d \<and> (d = deadline \<or> date_less d deadline))))"
    by (rule is_file_up_to_date_False_iff)
  show "is_file_up_to_date strptime Absent deadline = Inr False"
    by (simp add: is_file_up_to_date_def)
  show "is_file_up_to_date strptime Malformed deadline = Inr False"
    by (simp add: is_file_up_to_date_def)
  show "dict_get kvs' ''timestamp'' (JStr ''1900-01-01'') = JStr s' \<and> strptime s' = None \<longrightarrow>
      is_file_up_to_date strptime (Holds (JObj kvs')) deadline = Inr False"
    by (simp add: is_file_up_to_date_def)
  show "dict_get kvs' ''timestamp'' (JStr ''1900-01-01'') = JStr s' \<and> strptime s' = Some d' \<and>
    (d' = deadline \<or> date_less d' deadline) \<longrightarrow>
      is_file_up_to_date strptime (Holds (JObj kvs')) deadline = Inr False"
    by (auto simp add: is_file_up_to_date_def date_not_less)
  show "fst (load_or_update_valid_entries strptime fetch f later) \<longleftrightarrow>
      is_file_up_to_date strptime f TRADE_DEADLINE = Inr False \<or>
      (is_file_up_to_date strptime f TRADE_DEADLINE = Inr True \<and>
       (read_json later = Inl JSONDecodeError \<or> read_json later = Inl OSError))"
    by (rule refresh_iff)
  show "is_file_up_to_date strptime f TRADE_DEADLINE = Inr False \<and> fetch f = Inr (Holds data) \<longrightarrow>
      load_or_update_valid_entries strptime fetch f later = (True, Inr data)"
    by (simp add: load_or_update_valid_entries_def)
  show "is_file_up_to_date strptime f TRADE_DEADLINE = Inr True \<and> read_json later = Inr data \<longrightarrow>
      load_or_update_valid_entries strptime fetch f later = (False, Inr data)"
    by (simp add: load_or_update_valid_entries_def)
  show "is_file_up_to_date strptime f TRADE_DEADLINE = Inr True \<and>
    (read_json later = Inl JSONDecodeError \<or> read_json later = Inl OSError) \<and>
    fetch later = Inr (Holds data) \<longrightarrow>
      load_or_update_valid_entries strptime fetch f later = (True, Inr data)"
    by (auto simp add: load_or_update_valid_entries_def)
qed

lemma offline_writes_empty_catalog:
  "fetch_and_cache_valid_entries offline f = Inr (Holds (catalog [] [] ''2025-05-02''))"
  by (simp add: fetch_and_cache_valid_entries_def valid_data_def teams_list_def offline_def)

theorem freshness_check_witness:
  "is_file_up_to_date strptime_ymd (Holds (JObj [(''timestamp'', JStr ''soon'')])) TRADE_DEADLINE
     = Inr False \<and>
   is_file_up_to_date strptime_ymd (Holds stale_cache) TRADE_DEADLINE = Inr False \<and>
   load_or_update_valid_entries strptime_ymd (fetch_and_cache_valid_entries offline)
     (Holds stale_cache) (Holds stale_cache) = (True, Inr (catalog [] [] ''2025-05-02'')) \<and>
   is_file_up_to_date strptime_ymd (Holds fresh_cache) TRADE_DEADLINE = Inr True \<and>
   load_or_update_valid_entries strptime_ymd (fetch_and_cache_valid_entries offline)
     (Holds fresh_cache) (Holds fresh_cache) = (False, Inr fresh_cache) \<and>
   load_or_update_valid_entries strptime_ymd (fetch_and_cache_valid_entries offline)
     (Holds fresh_cache) Unreadable = (True, Inr (catalog [] [] ''2025-05-02'')) \<and>
   fst (load_or_update_valid_entries strptime_ymd (fetch_and_cache_valid_entries offline)
          Absent Absent)"
  using freshness_check [where strptime = strptime_ymd and f = "Holds fresh_cache"
      and deadline = TRADE_DEADLINE and kvs' = "[(''timestamp'', JStr ''soon'')]"
      and s' = "''soon''" and d' = TRADE_DEADLINE
      and fetch = "fetch_and_cache_valid_entries offline"
      and later = "Holds fresh_cache" and data = fresh_cache]
    freshness_check [where strptime = strptime_ymd and f = "Holds stale_cache"
      and deadline = TRADE_DEADLINE and kvs' = "[(''timestamp'', JStr ''2024-07-30'')]"
      and s' = "''2024-07-30''" and d' = TRADE_DEADLINE
      and fetch = "fetch_and_cache_valid_entries offline"
      and later = "Holds stale_cache" and data = "catalog [] [] ''2025-05-02''"]
    freshness_check [where strptime = strptime_ymd and f = "Holds fresh_cache"
      and deadline = TRADE_DEADLINE and kvs' = "[(''timestamp'', JStr ''soon'')]"
      and s' = "''soon''" and d' = TRADE_DEADLINE
      and fetch = "fetch_and_cache_valid_entries offline"
      and later = Unreadable and data = "catalog [] [] ''2025-05-02''"]
    freshness_check [where strptime = strptime_ymd and f = Absent
      and deadline = TRADE_DEADLINE and kvs' = "[(''timestamp'', JStr ''soon'')]"
      and s' = "''soon''" and d' = TRADE_DEADLINE
      and fetch = "fetch_and_cache_valid_entries offline"
      and later = Absent and data = "catalog [] [] ''2025-05-02''"]
  by (simp add: dict_get_def strptime_soon strptime_deadline fresh_cache_is_fresh
      stale_cache_is_stale offline_writes_empty_catalog)

lemma offline_bulk_writes_nothing:
  "fetch_and_cache_valid_entries_bulk offline f = Inr f"
  by (simp add: fetch_and_cache_valid_entries_bulk_def valid_data_bulk_def offline_def)

lemma offline_refused_writes_nothing:
  "fetch_and_cache_valid_entries (offline\<lparr>disk_write := Refused\<rparr>) f = Inr f"
  by (simp add: fetch_and_cache_valid_entries_def valid_data_def teams_list_def offline_def)

lemma list_cache_check_raises:
  "is_file_up_to_date strptime (Holds (JArr xs)) deadline = Inl AttributeError"
  by (simp add: is_file_up_to_date_def)

text \<open>
  C5 on three inputs where \<^verbatim>\<open>load_or_update_valid_entries\<close> hands its caller an
  exception. The cache is fresh at the check and gone at the read, and the bulk
  refresh returns without writing because the network is down: the second read,
  outside any \<^verbatim>\<open>try\<close>, raises \<^verbatim>\<open>FileNotFoundError\<close>. The cache is fresh at the
  check and unreadable afterwards, and the roster-based refresh cannot write: the
  same read raises \<^verbatim>\<open>OSError\<close>. The cache holds the JSON list \<^verbatim>\<open>[]\<close>: the
  freshness check itself raises \<^verbatim>\<open>AttributeError\<close>.
\<close>

theorem load_or_update_raises:
  "snd (load_or_update_valid_entries strptime_ymd (fetch_and_cache_valid_entries_bulk offline)
          (Holds fresh_cache) Absent) = Inl OSError \<and>
   snd (load_or_update_valid_entries strptime_ymd
          (fetch_and_cache_valid_entries (offline\<lparr>disk_write := Refused\<rparr>))
          (Holds fresh_cache) Unreadable) = Inl OSError \<and>
   snd (load_or_update_valid_entries strptime_ymd (fetch_and_cache_valid_entries offline)
          (Holds (JArr [])) (Holds (JArr []))) = Inl AttributeError"
  by (simp add: load_or_update_valid_entries_def fresh_cache_is_fresh
      offline_bulk_writes_nothing offline_refused_writes_nothing list_cache_check_raises)


section \<open>Failures of the news request\<close>

lemma fetch_news_downgrades:
  "fetch_news (\<lambda>url. Failed) key query from_date to_date = Inr (JArr [])"
  "fetch_news (\<lambda>url. Unparseable) key query from_date to_date = Inr (JArr [])"
  "fetch_news_v2 (\<lambda>url. Failed) key query from_date to_date = Inr (JArr [])"
  "fetch_news_v2 (\<lambda>url. Unparseable) key query from_date to_date = Inr (JArr [])"
  "fetch_news_final_proj (\<lambda>url. Unparseable) key query from_date to_date = Inr (JArr [])"
  by (simp_all add: fetch_news_def fetch_news_v2_def fetch_news_final_proj_def)

text \<open>
  C9 on the \<^verbatim>\<open>fetch_news\<close> of the second program of Outfield.py: it has no
  handler for \<^verbatim>\<open>RequestException\<close>, so a request that fails raises instead of
  giving the empty list.
\<close>

theorem fetch_news_final_proj_raises:
  "fetch_news_final_proj (\<lambda>url. Failed) key query from_date to_date = Inl RequestException"
  by (simp add: fetch_news_final_proj_def)


section \<open>The seven labels\<close>

text \<open>
  C3. \<^verbatim>\<open>categorize_score\<close> returns the label of the seven-row table, for every
  score and so for every score between \<open>-1\<close> and \<open>1\<close>: "Strongly negative" exactly
  when the score is at most \<open>-0.667\<close>, "Moderately negative" exactly when it is above
  \<open>-0.667\<close> and at most \<open>-0.334\<close>, "Slightly negative" exactly when it is above
  \<open>-0.334\<close> and below \<open>0\<close>, "Neutral" exactly at \<open>0\<close>, "Slightly positive" exactly
  when it is above \<open>0\<close> and at most \<open>0.333\<close>, "Moderately positive" exactly when it is
  above \<open>0.333\<close> and at most \<open>0.666\<close>, "Strongly positive" exactly when it is above
  \<open>0.666\<close>.
\<close>

theorem categorize_score_table:
  "(categorize_score s = ''Strongly negative'' \<longleftrightarrow> s \<le> - 0.667) \<and>
   (categorize_score s = ''Moderately negative'' \<longleftrightarrow> - 0.667 < s \<and> s \<le> - 0.334) \<and>
   (categorize_score s = ''Slightly negative'' \<longleftrightarrow> - 0.334 < s \<and> s < 0) \<and>
   (categorize_score s = ''Neutral'' \<longleftrightarrow> s = 0) \<and>
   (categorize_score s = ''Slightly positive'' \<longleftrightarrow> 0 < s \<and> s \<le> 0.333) \<and>
   (categorize_score s = ''Moderately positive'' \<longleftrightarrow> 0.333 < s \<and> s \<le> 0.666) \<and>
   (categorize_score s = ''Strongly positive'' \<longleftrightarrow> 0.666 < s)"
proof (intro conjI)
  show "categorize_score s = ''Strongly negative'' \<longleftrightarrow> s \<le> - 0.667"
    by (simp add: categorize_score_def)
  show "categorize_score s = ''Moderately negative'' \<longleftrightarrow> - 0.667 < s \<and> s \<le> - 0.334"
    by (auto simp add: categorize_score_def)
  show "categorize_score s = ''Slightly negative'' \<longleftrightarrow> - 0.334 < s \<and> s < 0"
    by (auto simp add: categorize_score_def)
  show "categorize_score s = ''Neutral'' \<longleftrightarrow> s = 0"
    by (auto simp add: categorize_score_def)
  show "categorize_score s = ''Slightly positive'' \<longleftrightarrow> 0 < s \<and> s \<le> 0.333"
    by (auto simp add: categorize_score_def)
  show "categorize_score s = ''Moderately positive'' \<longleftrightarrow> 0.333 < s \<and> s \<le> 0.666"
    by (auto simp add: categorize_score_def)
  show "categorize_score s = ''Strongly positive'' \<longleftrightarrow> 0.666 < s"
    by (auto simp add: categorize_score_def)
qed

text \<open>
  C4, as stated, fails at \<open>-0.6669\<close>: that score is above \<open>-0.667\<close>, so the first
  test of \<^verbatim>\<open>categorize_score\<close> is false and the label is not "Strongly negative".
\<close>

theorem categorize_score_boundary_counterexample:
  "categorize_score (- 0.6669) \<noteq> ''Strongly negative''"
  by (simp add: categorize_score_def)

text \<open>
  C4, amended. \<^verbatim>\<open>categorize_score(-0.667)\<close> is "Strongly negative",
  \<^verbatim>\<open>categorize_score(-0.6669)\<close> is "Moderately negative",
  \<^verbatim>\<open>categorize_score(-0.6)\<close> is "Moderately negative", \<^verbatim>\<open>categorize_score(0)\<close>
  is "Neutral" and \<^verbatim>\<open>categorize_score(0.667)\<close> is "Strongly positive".
\<close>

theorem categorize_score_boundary_values:
  "categorize_score (- 0.667) = ''Strongly negative'' \<and>
   categorize_score (- 0.6669) = ''Moderately negative'' \<and>
   categorize_score (- 0.6) = ''Moderately negative'' \<and>
   categorize_score 0 = ''Neutral'' \<and>
   categorize_score 0.667 = ''Strongly positive''"
  by (simp add: categorize_score_def)


section \<open>Resolution by substring\<close>

lemma catalog_entry_shape:
  assumes "catalog_entry x"
  shows "\<exists>kvs n i. x = JObj kvs \<and> map_of kvs ''name'' = Some (JStr n) \<and> map_of kvs ''id'' = Some i"
proof (cases x)
  case (JObj kvs)
  show ?thesis
  proof (cases "map_of kvs ''name''")
    case None
    with assms JObj show ?thesis by (simp add: catalog_entry_def)
  next
    case (Some nm)
    with assms JObj show ?thesis
      by (cases nm) (auto simp add: catalog_entry_def)
  qed
qed (use assms in \<open>simp_all add: catalog_entry_def\<close>)

lemma match_loop_find:
  "list_all catalog_entry xs \<Longrightarrow>
   match_loop user_input kind xs sel =
     Inr (case find (matches user_input) xs of
            None \<Rightarrow> sel
          | Some x \<Rightarrow> (id_of x, JStr kind, name_of x))"
proof (induction xs)
  case Nil
  show ?case by simp
next
  case (Cons x xs)
  from Cons.prems have x: "catalog_entry x" and xs: "list_all catalog_entry xs"
    by simp_all
  from catalog_entry_shape [OF x] obtain kvs n i where
    "x = JObj kvs" "map_of kvs ''name'' = Some (JStr n)" "map_of kvs ''id'' = Some i"
    by blast
  with Cons.IH [OF xs] show ?case
    by (simp add: matches_def id_of_def name_of_def)
qed

lemma find_only:
  assumes "\<forall>y \<in> set xs. P y \<longrightarrow> y = x"
  shows "find P xs = None \<or> find P xs = Some x"
proof (cases "find P xs")
  case None
  then show ?thesis by simp
next
  case (Some y)
  then have "P y" "y \<in> set xs"
    by (auto simp add: find_Some_iff)
  with assms Some show ?thesis by simp
qed

lemma resolve_player_wins:
  assumes entries: "list_all catalog_entry (teams @ players)"
    and teams: "dict_get kvs ''teams'' (JArr []) = JArr teams"
    and players: "dict_get kvs ''players'' (JArr []) = JArr players"
    and p: "find (matches user_input) players = Some p"
    and id: "truthy (id_of p)"
  shows "resolve (JObj kvs) user_input = Inr (Resolved (id_of p) (JStr ''player'') (name_of p))"
proof -
  from entries have et: "list_all catalog_entry teams" and ep: "list_all catalog_entry players"
    by simp_all
  from id p show ?thesis
    by (simp add: resolve_def teams players match_loop_find [OF et] match_loop_find [OF ep])
qed

text \<open>
  C2 on a catalog where the input matches a team and a player: the loop over the
  players runs whatever the loop over the teams found, and its match replaces the
  team.
\<close>

theorem player_overrides_team:
  "resolve
     (JObj [(''teams'', JArr [entity (JInt 135) (JStr ''San Diego Padres'')]),
            (''players'', JArr [entity (JInt 467793) (JStr ''Carlos Santana'')]),
            (''timestamp'', JStr ''2025-05-01'')])
     ''san''
   = Inr (Resolved (JInt 467793) (JStr ''player'') (JStr ''Carlos Santana''))"
  by code_simp


text \<open>
  C10. \<^verbatim>\<open>main()\<close> tests the truth value of \<^verbatim>\<open>entity_id\<close> to know whether
  something matched. So when the input matches one entity of the catalog only, and
  that entity's id counts as false (\<open>0\<close>, null, the empty string), the outcome
  is the one of a catalog without any entity: the league when the input is "mlb" in
  any case, the message "Invalid input" otherwise. The entity is never returned.
\<close>

theorem falsy_id_match_is_no_match:
  assumes entries: "list_all catalog_entry (teams @ players)"
    and teams: "dict_get kvs ''teams'' (JArr []) = JArr teams"
    and players: "dict_get kvs ''players'' (JArr []) = JArr players"
    and x: "x \<in> set (teams @ players)"
    and m: "matches user_input x"
    and falsy: "\<not> truthy (id_of x)"
    and only: "\<forall>y \<in> set (teams @ players). matches user_input y \<longrightarrow> y = x"
  shows "resolve (JObj kvs) user_input =
           Inr (if lower user_input = ''mlb''
                then Resolved JNull (JStr ''league'') (JStr ''MLB'')
                else Invalid) \<and>
         resolve (JObj kvs) user_input = resolve empty_catalog user_input"
proof -
  let ?nothing = "(JNull, JNull, JNull)"
  from entries have et: "list_all catalog_entry teams" and ep: "list_all catalog_entry players"
    by simp_all
  from only have ot: "\<forall>y \<in> set teams. matches user_input y \<longrightarrow> y = x"
    and op: "\<forall>y \<in> set players. matches user_input y \<longrightarrow> y = x"
    by auto
  have ft: "find (matches user_input) teams = None \<or> find (matches user_input) teams = Some x"
    by (rule find_only [OF ot])
  have fp: "find (matches user_input) players = None \<or> find (matches user_input) players = Some x"
    by (rule find_only [OF op])
  have some: "find (matches user_input) teams = Some x \<or> find (matches user_input) players = Some x"
  proof (rule ccontr)
    assume "\<not> ?thesis"
    with ft fp have "find (matches user_input) teams = None" "find (matches user_input) players = None"
      by auto
    then have "\<forall>y \<in> set (teams @ players). \<not> matches user_input y"
      by (auto simp add: find_None_iff)
    with x m show False by blast
  qed
  obtain k where sel:
    "match_loop user_input ''player'' players
       (case find (matches user_input) teams of
          None \<Rightarrow> ?nothing | Some y \<Rightarrow> (id_of y, JStr ''team'', name_of y))
     = Inr (id_of x, JStr k, name_of x)" and k: "k = ''team'' \<or> k = ''player''"
    using ft fp some by (auto simp add: match_loop_find [OF ep])
  from k have nl: "JStr k \<noteq> JStr ''league''" by auto
  have first: "resolve (JObj kvs) user_input =
           Inr (if lower user_input = ''mlb''
                then Resolved JNull (JStr ''league'') (JStr ''MLB'')
                else Invalid)"
    using falsy nl
    by (simp add: resolve_def teams players match_loop_find [OF et] sel)
  have second: "resolve empty_catalog user_input =
           Inr (if lower user_input = ''mlb''
                then Resolved JNull (JStr ''league'') (JStr ''MLB'')
                else Invalid)"
    by (simp add: resolve_def empty_catalog_def dict_get_def)
  from first second show ?thesis by simp
qed

lemma lower_isotopes: "lower ''isotopes'' = ''isotopes''" by code_simp
lemma lower_Isotopes: "lower ''Springfield Isotopes'' = ''springfield isotopes''" by code_simp
lemma lower_Judge: "lower ''Aaron Judge'' = ''aaron judge''" by code_simp
lemma isotopes_in: "sublist ''isotopes'' ''springfield isotopes''" by code_simp
lemma isotopes_out: "\<not> sublist ''isotopes'' ''aaron judge''" by code_simp

theorem falsy_id_match_is_no_match_witness:
  "matches ''isotopes'' (entity (JInt 0) (JStr ''Springfield Isotopes'')) \<and>
   \<not> truthy (id_of (entity (JInt 0) (JStr ''Springfield Isotopes''))) \<and>
   resolve
     (JObj [(''teams'', JArr [entity (JInt 0) (JStr ''Springfield Isotopes'')]),
            (''players'', JArr [entity (JInt 592450) (JStr ''Aaron Judge'')])])
     ''isotopes'' = Inr Invalid"
  using falsy_id_match_is_no_match [of
      "[entity (JInt 0) (JStr ''Springfield Isotopes'')]"
      "[entity (JInt 592450) (JStr ''Aaron Judge'')]"
      "[(''teams'', JArr [entity (JInt 0) (JStr ''Springfield Isotopes'')]),
        (''players'', JArr [entity (JInt 592450) (JStr ''Aaron Judge'')])]"
      "entity (JInt 0) (JStr ''Springfield Isotopes'')" "''isotopes''"]
  by (simp add: catalog_entry_def entity_def dict_get_def matches_def id_of_def
      lower_isotopes lower_Isotopes lower_Judge isotopes_in isotopes_out)


section \<open>Scoring the articles\<close>

lemma scorable_content:
  assumes "scorable (JObj kvs)"
  shows "(let d = dict_get kvs ''description'' (JStr '''') in if truthy d then d else JStr '''')
           = JStr (scored_text (JObj kvs))"
proof (cases "map_of kvs ''description''")
  case None
  then show ?thesis by (simp add: dict_get_def scored_text_def)
next
  case (Some d)
  with assms show ?thesis
    by (cases d) (auto simp add: dict_get_def scored_text_def scorable_def)
qed

lemma scorable_dict: "scorable a \<Longrightarrow> \<exists>kvs. a = JObj kvs"
  by (cases a) (simp_all add: scorable_def)

lemma analyze_sentiment_map:
  "list_all scorable articles \<Longrightarrow>
   analyze_sentiment sia articles = Inr (map (\<lambda>a. with_score (sia (scored_text a)) a) articles)"
proof (induction articles)
  case Nil
  show ?case by simp
next
  case (Cons a rest)
  from Cons.prems have a: "scorable a" and rest: "list_all scorable rest"
    by simp_all
  from scorable_dict [OF a] obtain kvs where kvs: "a = JObj kvs" ..
  from a kvs have "(if truthy (dict_get kvs ''description'' (JStr ''''))
                    then dict_get kvs ''description'' (JStr '''') else JStr '''')
                   = JStr (scored_text (JObj kvs))"
    using scorable_content [of kvs] by (simp add: Let_def)
  with Cons.IH [OF rest] kvs show ?case
    by (simp add: with_score_def)
qed

lemma score_attached:
  "py_get (with_score v (JObj kvs)) ''sentiment_score'' JNull = Inr (JFloat v)"
  by (simp add: with_score_def dict_get_def update_conv')

lemma content_ignored:
  "scored_text (JObj (AList.update ''content'' c kvs)) = scored_text (JObj kvs)"
  by (simp add: scored_text_def update_conv')

lemma no_description_text:
  "map_of kvs ''description'' \<in> {None, Some JNull, Some (JStr '''')} \<Longrightarrow>
   scored_text (JObj kvs) = ''''"
  by (auto simp add: scored_text_def)

text \<open>
  C8. With a scorer that gives \<open>0\<close> on the empty string, and articles that are
  dictionaries whose description, when it counts as true, is a string:
  \<^verbatim>\<open>analyze_sentiment\<close> raises nothing and returns every article with the key
  \<^verbatim>\<open>sentiment_score\<close> set to the scorer's value on the description, or on the
  empty string when the description is absent, null or empty, which makes the score
  \<open>0\<close>. The text that is scored does not depend on the \<^verbatim>\<open>content\<close> field.
\<close>

theorem analyze_sentiment_scores_description:
  assumes neutral: "sia '''' = 0" and ok: "list_all scorable articles"
  shows "analyze_sentiment sia articles =
           Inr (map (\<lambda>a. with_score (sia (scored_text a)) a) articles) \<and>
         (\<forall>kvs. JObj kvs \<in> set articles \<longrightarrow>
            py_get (with_score (sia (scored_text (JObj kvs))) (JObj kvs)) ''sentiment_score'' JNull
              = Inr (JFloat (sia (scored_text (JObj kvs)))) \<and>
            (\<forall>c. scored_text (JObj (AList.update ''content'' c kvs)) = scored_text (JObj kvs)) \<and>
            (map_of kvs ''description'' \<in> {None, Some JNull, Some (JStr '''')} \<longrightarrow>
               with_score (sia (scored_text (JObj kvs))) (JObj kvs)
                 = JObj (AList.update ''sentiment_score'' (JFloat 0) kvs)))"
proof (intro conjI allI impI)
  show "analyze_sentiment sia articles =
           Inr (map (\<lambda>a. with_score (sia (scored_text a)) a) articles)"
    by (rule analyze_sentiment_map [OF ok])
next
  fix kvs
  show "py_get (with_score (sia (scored_text (JObj kvs))) (JObj kvs)) ''sentiment_score'' JNull
              = Inr (JFloat (sia (scored_text (JObj kvs))))"
    by (rule score_attached)
next
  fix kvs c
  show "scored_text (JObj (AList.update ''content'' c kvs)) = scored_text (JObj kvs)"
    by (rule content_ignored)
next
  fix kvs
  assume "map_of kvs ''description'' \<in> {None, Some JNull, Some (JStr '''')}"
  then have "scored_text (JObj kvs) = ''''" by (rule no_description_text)
  with neutral show "with_score (sia (scored_text (JObj kvs))) (JObj kvs)
                 = JObj (AList.update ''sentiment_score'' (JFloat 0) kvs)"
    by (simp add: with_score_def)
qed

theorem analyze_sentiment_scores_description_witness:
  "analyze_sentiment (\<lambda>text. if text = '''' then 0 else 1 / 2)
     [JObj [(''title'', JStr ''Win''), (''description'', JStr ''Yankees win''),
            (''content'', JStr ''A dreadful night'')],
      JObj [(''title'', JStr ''Loss''), (''description'', JNull),
            (''content'', JStr ''A dreadful night'')],
      JObj [(''title'', JStr ''Rain'')]]
   = Inr
     [JObj [(''title'', JStr ''Win''), (''description'', JStr ''Yankees win''),
            (''content'', JStr ''A dreadful night''), (''sentiment_score'', JFloat (1 / 2))],
      JObj [(''title'', JStr ''Loss''), (''description'', JNull),
            (''content'', JStr ''A dreadful night''), (''sentiment_score'', JFloat 0)],
      JObj [(''title'', JStr ''Rain''), (''sentiment_score'', JFloat 0)]]"
  using analyze_sentiment_scores_description [of "\<lambda>text. if text = '''' then 0 else 1 / 2"
     "[JObj [(''title'', JStr ''Win''), (''description'', JStr ''Yankees win''),
            (''content'', JStr ''A dreadful night'')],
      JObj [(''title'', JStr ''Loss''), (''description'', JNull),
            (''content'', JStr ''A dreadful night'')],
      JObj [(''title'', JStr ''Rain'')]]"]
  by (simp add: scorable_def dict_get_def scored_text_def with_score_def)


section \<open>The refreshed catalog\<close>

lemma entry_players_simps:
  "entry_players (JObj ek) =
     (case dict_get ek ''person'' JNull of
        JObj pk \<Rightarrow>
          if truthy (dict_get pk ''id'' JNull) \<and> truthy (dict_get pk ''fullName'' JNull)
          then [entity (dict_get pk ''id'' JNull) (dict_get pk ''fullName'' JNull)]
          else []
      | _ \<Rightarrow> [])"
  by (simp add: entry_players_def split: json.splits)

lemma dict_get_empty: "dict_get [] k d = d"
  by (simp add: dict_get_def)

lemma collect_players_step:
  assumes "collect_players (entry # rest) players = Inr out"
  shows "collect_players (entry # rest) players' =
           collect_players rest (players' @ entry_players entry)"
proof (cases entry)
  case (JObj ek)
  show ?thesis
  proof (cases "dict_get ek ''person'' JNull")
    case (JObj pk)
    with \<open>entry = JObj ek\<close> show ?thesis
      by (cases "pk = []") (simp_all add: entry_players_simps dict_get_empty)
  qed (use assms \<open>entry = JObj ek\<close> in
        \<open>simp_all add: entry_players_simps dict_get_empty split: if_splits\<close>)
qed (use assms in simp_all)

lemma collect_players_closed:
  "collect_players entries players = Inr out \<Longrightarrow>
   collect_players entries players' = Inr (players' @ concat (map entry_players entries))"
proof (induction entries arbitrary: players players' out)
  case Nil
  show ?case by simp
next
  case (Cons entry rest)
  from Cons.prems have "collect_players rest (players @ entry_players entry) = Inr out"
    by (simp only: collect_players_step [OF Cons.prems, of players])
  from Cons.IH [OF this, of "players' @ entry_players entry"]
  show ?case
    unfolding collect_players_step [OF Cons.prems, of players'] by simp
qed

lemma roster_players_entries:
  "roster_players w team =
     (case roster_entries w (team_id team) of
        Inr r \<Rightarrow> (case py_iter r of Inr entries \<Rightarrow> concat (map entry_players entries) | Inl e \<Rightarrow> [])
      | Inl e \<Rightarrow> [])"
  by (cases "roster_request w (team_id team)")
     (simp_all add: roster_players_def roster_entries_def)

lemma roster_entries_failing:
  "roster_entries (failing F U w) i =
     (if i \<in> F \<union> U then Inr (JArr []) else roster_entries w i)"
  by (simp add: roster_entries_def failing_def)

lemma roster_players_failing:
  "roster_players (failing F U w) t =
     (if team_id t \<in> F \<union> U then [] else roster_players w t)"
  by (simp add: roster_players_entries roster_entries_failing)

lemma failing_none: "failing {} {} w = w"
  by (simp add: failing_def)

lemma collect_teams_step:
  assumes "collect_teams w (team # rest) (teams, players) = Inr out"
  shows "collect_teams (failing F U w) (team # rest) (teams', players') =
           collect_teams (failing F U w) rest
             (if team_valid team
              then (teams' @ [team_entity team], players' @ roster_players (failing F U w) team)
              else (teams', players'))"
proof (cases team)
  case (JObj tk)
  show ?thesis
  proof (cases "team_valid team")
    case False
    with JObj show ?thesis
      by (auto simp add: team_valid_def team_id_def team_name_def)
  next
    case True
    with JObj have t: "truthy (dict_get tk ''id'' JNull)" "truthy (dict_get tk ''name'' JNull)"
      by (simp_all add: team_valid_def team_id_def team_name_def)
    show ?thesis
    proof (cases "dict_get tk ''id'' JNull \<in> F \<union> U")
      case True
      with JObj t show ?thesis
        by (simp add: roster_entries_failing roster_players_failing team_valid_def
            team_entity_def team_id_def team_name_def)
    next
      case False
      from assms JObj t obtain r entries found where
        r: "roster_entries w (dict_get tk ''id'' JNull) = Inr r"
        and e: "py_iter r = Inr entries"
        and c: "collect_players entries players = Inr found"
        by (auto split: sum.splits)
      from r e have rp: "roster_players w team = concat (map entry_players entries)"
        using JObj by (simp add: roster_players_entries team_id_def)
      from JObj t False r e collect_players_closed [OF c, of players'] rp show ?thesis
        by (simp add: roster_entries_failing roster_players_failing team_valid_def
            team_entity_def team_id_def team_name_def)
    qed
  qed
qed (use assms in simp_all)

lemma collect_teams_closed:
  "collect_teams w ts (teams, players) = Inr out \<Longrightarrow>
   collect_teams (failing F U w) ts (teams', players') =
     Inr (teams' @ map team_entity (filter team_valid ts),
          players' @ concat (map (roster_players (failing F U w)) (filter team_valid ts)))"
proof (induction ts arbitrary: teams players teams' players' out)
  case Nil
  show ?case by simp
next
  case (Cons team rest)
  have "collect_teams w (team # rest) (teams, players) =
          collect_teams w rest
            (if team_valid team
             then (teams @ [team_entity team], players @ roster_players w team)
             else (teams, players))"
    using collect_teams_step [OF Cons.prems, of "{}" "{}" teams players]
    by (simp add: failing_none)
  with Cons.prems have rest:
    "collect_teams w rest
       (if team_valid team
        then (teams @ [team_entity team], players @ roster_players w team)
        else (teams, players)) = Inr out"
    by simp
  show ?case
  proof (cases "team_valid team")
    case True
    with rest have "collect_teams w rest
       (teams @ [team_entity team], players @ roster_players w team) = Inr out"
      by simp
    from Cons.IH [OF this] True show ?thesis
      unfolding collect_teams_step [OF Cons.prems] by simp
  next
    case False
    with rest have "collect_teams w rest (teams, players) = Inr out"
      by simp
    from Cons.IH [OF this] False show ?thesis
      unfolding collect_teams_step [OF Cons.prems] by simp
  qed
qed

lemma failing_fields:
  "teams_list (failing F U w) = teams_list w"
  "today (failing F U w) = today w"
  "disk_write (failing F U w) = disk_write w"
  by (simp_all add: teams_list_def failing_def)

lemma valid_data_failing:
  assumes "valid_data w = Inr v"
  shows "valid_data (failing F U w) =
           Inr (catalog (map team_entity (filter team_valid (listed_teams w)))
                  (concat (map (roster_players (failing F U w))
                     (filter team_valid (listed_teams w))))
                  (today w))"
proof -
  from assms obtain listing ts out where
    l: "teams_list w = Inr listing" and i: "py_iter listing = Inr ts"
    and c: "collect_teams w ts ([], []) = Inr out"
    by (auto simp add: valid_data_def split: sum.splits)
  from l i have lt: "listed_teams w = ts"
    by (simp add: listed_teams_def)
  from collect_teams_closed [OF c, of F U "[]" "[]"] l i lt show ?thesis
    by (simp add: valid_data_def failing_fields)
qed

lemma valid_data_closed:
  assumes "valid_data w = Inr v"
  shows "v = catalog (map team_entity (filter team_valid (listed_teams w)))
                  (concat (map (roster_players w) (filter team_valid (listed_teams w))))
                  (today w)"
  using valid_data_failing [OF assms, of "{}" "{}"] assms by (simp add: failing_none)







lemma valid_data_two_teams:
  "valid_data two_teams =
     Inr (catalog
       [entity (JInt 147) (JStr ''New York Yankees''), entity (JInt 121) (JStr ''New York Mets'')]
       [entity (JInt 592450) (JStr ''Aaron Judge'')]
       ''2025-05-02'')"
  by (simp add: valid_data_def teams_list_def two_teams_def dict_get_def roster_entries_def)

lemma two_teams_fields:
  "today two_teams = ''2025-05-02''"
  "disk_write two_teams = Written"
  "roster_request two_teams (JInt 121) = Failed"
  by (simp_all add: two_teams_def)






lemma truthy_entity: "truthy i \<Longrightarrow> truthy n \<Longrightarrow> has_id_and_name (entity i n)"
  by (auto simp add: has_id_and_name_def entity_def)

lemma entry_players_ok: "list_all has_id_and_name (entry_players entry)"
  by (cases entry) (auto simp add: entry_players_def truthy_entity split: json.splits)

lemma roster_players_ok: "list_all has_id_and_name (roster_players w t)"
  by (auto simp add: roster_players_entries list_all_iff entry_players_ok [unfolded list_all_iff]
      split: sum.splits)

lemma stored_catalog:
  "stored ''teams'' (catalog ts ps stamp) = ts" "stored ''players'' (catalog ts ps stamp) = ps"
  by (simp_all add: stored_def catalog_def dict_get_def)

lemma valid_data_invariant:
  assumes "valid_data w = Inr v"
  shows "v = catalog (stored ''teams'' v) (stored ''players'' v) (today w) \<and>
         list_all has_id_and_name (stored ''teams'' v) \<and>
         list_all has_id_and_name (stored ''players'' v)"
proof -
  let ?ts = "filter team_valid (listed_teams w)"
  have v: "v = catalog (map team_entity ?ts) (concat (map (roster_players w) ?ts)) (today w)"
    by (rule valid_data_closed [OF assms])
  have t: "list_all has_id_and_name (map team_entity ?ts)"
    by (auto simp add: list_all_iff team_valid_def team_entity_def truthy_entity)
  have p: "list_all has_id_and_name (concat (map (roster_players w) ?ts))"
    using roster_players_ok [of w] by (auto simp add: list_all_iff)
  from v t p show ?thesis
    by (simp add: stored_catalog)
qed

text \<open>
  C6 on the bulk refresh of FinalProjectv2.py (and of the second program of
  Outfield.py). It copies the id and the name of every upstream entry without any
  test: a team with a null id and an empty name reaches the cache, and a team
  without the key \<^verbatim>\<open>id\<close> is not skipped but makes the function raise
  \<^verbatim>\<open>KeyError\<close>.
\<close>

theorem bulk_refresh_stores_unfiltered:
  "fetch_and_cache_valid_entries_bulk nameless_upstream Absent =
     Inr (Holds (JObj [(''players'', JArr []),
                       (''teams'', JArr [entity JNull (JStr [])]),
                       (''timestamp'', JStr ''2025-05-02'')])) \<and>
   \<not> has_id_and_name (entity JNull (JStr [])) \<and>
   fetch_and_cache_valid_entries_bulk keyless_upstream Absent = Inl KeyError"
  by (simp add: fetch_and_cache_valid_entries_bulk_def valid_data_bulk_def nameless_upstream_def
      keyless_upstream_def dict_get_def has_id_and_name_def entity_def)

lemma written_is_valid_data:
  assumes "fetch_and_cache_valid_entries w f = Inr (Holds c)" and "Holds c \<noteq> f"
  shows "valid_data w = Inr c"
proof (cases "valid_data w")
  case (Inl e)
  with assms show ?thesis by (simp add: fetch_and_cache_valid_entries_def)
next
  case (Inr v)
  with assms show ?thesis
    by (cases "disk_write w") (simp_all add: fetch_and_cache_valid_entries_def)
qed

lemma invalid_team_skipped:
  assumes "\<not> team_valid (JObj tk)"
  shows "collect_teams w (JObj tk # rest) (teams, players) = collect_teams w rest (teams, players)"
  using assms by (auto simp add: team_valid_def team_id_def team_name_def)

lemma invalid_player_skipped:
  assumes "dict_get ek ''person'' JNull = JObj pk"
    and "\<not> (truthy (dict_get pk ''id'' JNull) \<and> truthy (dict_get pk ''fullName'' JNull))"
  shows "collect_players (JObj ek # rest) players = collect_players rest players"
  using assms by (cases "pk = []") (auto simp add: dict_get_empty)

text \<open>
  The roster-based refresh of final_presentation.py, final_presentation_v2.py and
  the first program of Outfield.py, for comparison. Whatever the statistics service
  answers, the catalog that \<^verbatim>\<open>fetch_and_cache_valid_entries\<close> builds holds teams
  and players with an id that is not null and a name that is neither null nor empty,
  and a cache file that the function has changed and that can be read holds that
  catalog. A team whose id or name is missing or counts as false is skipped, and so
  is a roster member whose id or full name is.
\<close>

theorem stored_entities_have_id_and_name:
  "(valid_data w = Inr v \<longrightarrow>
      v = catalog (stored ''teams'' v) (stored ''players'' v) (today w) \<and>
      list_all has_id_and_name (stored ''teams'' v) \<and>
      list_all has_id_and_name (stored ''players'' v)) \<and>
   (fetch_and_cache_valid_entries w f = Inr (Holds c) \<and> Holds c \<noteq> f \<longrightarrow>
      valid_data w = Inr c) \<and>
   (\<not> team_valid (JObj tk) \<longrightarrow>
      collect_teams w (JObj tk # rest) (teams, players) = collect_teams w rest (teams, players)) \<and>
   (dict_get ek ''person'' JNull = JObj pk \<and>
    \<not> (truthy (dict_get pk ''id'' JNull) \<and> truthy (dict_get pk ''fullName'' JNull)) \<longrightarrow>
      collect_players (JObj ek # entries) players = collect_players entries players)"
proof (intro conjI impI)
  assume "valid_data w = Inr v"
  from valid_data_invariant [OF this]
  show "v = catalog (stored ''teams'' v) (stored ''players'' v) (today w)"
    and "list_all has_id_and_name (stored ''teams'' v)"
    and "list_all has_id_and_name (stored ''players'' v)"
    by simp_all
next
  assume "fetch_and_cache_valid_entries w f = Inr (Holds c) \<and> Holds c \<noteq> f"
  then show "valid_data w = Inr c"
    using written_is_valid_data by blast
next
  assume "\<not> team_valid (JObj tk)"
  then show "collect_teams w (JObj tk # rest) (teams, players)
               = collect_teams w rest (teams, players)"
    by (rule invalid_team_skipped)
next
  assume "dict_get ek ''person'' JNull = JObj pk \<and>
    \<not> (truthy (dict_get pk ''id'' JNull) \<and> truthy (dict_get pk ''fullName'' JNull))"
  then show "collect_players (JObj ek # entries) players = collect_players entries players"
    using invalid_player_skipped by blast
qed

theorem stored_entities_have_id_and_name_witness:
  "fetch_and_cache_valid_entries two_teams Absent =
     Inr (Holds (catalog
       [entity (JInt 147) (JStr ''New York Yankees''), entity (JInt 121) (JStr ''New York Mets'')]
       [entity (JInt 592450) (JStr ''Aaron Judge'')]
       ''2025-05-02'')) \<and>
   list_all has_id_and_name
     [entity (JInt 147) (JStr ''New York Yankees''), entity (JInt 121) (JStr ''New York Mets'')] \<and>
   list_all has_id_and_name [entity (JInt 592450) (JStr ''Aaron Judge'')] \<and>
   collect_teams two_teams [JObj [(''id'', JNull), (''name'', JStr ''Nameless'')]] ([], [])
     = Inr ([], []) \<and>
   collect_players [JObj [(''person'', JObj [(''id'', JInt 7), (''fullName'', JStr [])])]] []
     = Inr []"
  using stored_entities_have_id_and_name [where w = two_teams and f = Absent
      and v = "catalog
         [entity (JInt 147) (JStr ''New York Yankees''),
          entity (JInt 121) (JStr ''New York Mets'')]
         [entity (JInt 592450) (JStr ''Aaron Judge'')]
         ''2025-05-02''"
      and c = "catalog
         [entity (JInt 147) (JStr ''New York Yankees''),
          entity (JInt 121) (JStr ''New York Mets'')]
         [entity (JInt 592450) (JStr ''Aaron Judge'')]
         ''2025-05-02''"
      and tk = "[(''id'', JNull), (''name'', JStr ''Nameless'')]"
      and rest = "[]" and teams = "[]" and players = "[]"
      and ek = "[(''person'', JObj [(''id'', JInt 7), (''fullName'', JStr [])])]"
      and pk = "[(''id'', JInt 7), (''fullName'', JStr [])]" and entries = "[]"]
  by (simp add: valid_data_two_teams stored_catalog fetch_and_cache_valid_entries_def
      two_teams_fields team_valid_def team_id_def dict_get_def)

end
